theory Spec2Isabelle
  imports Complex_Main "HOL-Library.Sublist"
begin

section \<open>Floats\<close>

text \<open>
  A finite Python float is modelled by the real number it denotes; rounding, overflow and
  the sign of zero are not modelled. The three non-finite floats that a NumPy division can
  produce are constructors of their own, so that a division by zero is a value of the
  model and not an unspecified real.
\<close>

datatype py_float = Fin real | PosInf | NegInf | NaN

text \<open>\<^verbatim>\<open>np.mean\<close> and \<^verbatim>\<open>np.std\<close> (population standard deviation) of a list of finite
  floats; on the empty list NumPy warns and returns nan.\<close>

definition np_mean :: "real list \<Rightarrow> py_float" where
  "np_mean xs = (if xs = [] then NaN else Fin (sum_list xs / real (length xs)))"

definition np_std :: "real list \<Rightarrow> py_float" where
  "np_std xs =
     (if xs = [] then NaN
      else let m = sum_list xs / real (length xs)
           in Fin (sqrt (sum_list (map (\<lambda>x. (x - m)\<^sup>2) xs) / real (length xs))))"

text \<open>Division of \<^verbatim>\<open>np.float64\<close> values: a zero divisor gives nan or an infinity
  (with a RuntimeWarning), never an exception.\<close>

fun np_divide :: "py_float \<Rightarrow> py_float \<Rightarrow> py_float" where
  "np_divide NaN _ = NaN"
| "np_divide _ NaN = NaN"
| "np_divide (Fin a) (Fin b) =
     (if b \<noteq> 0 then Fin (a / b)
      else if a = 0 then NaN
      else if 0 < a then PosInf else NegInf)"
| "np_divide (Fin a) _ = Fin 0"
| "np_divide PosInf (Fin b) = (if 0 \<le> b then PosInf else NegInf)"
| "np_divide NegInf (Fin b) = (if 0 \<le> b then NegInf else PosInf)"
| "np_divide _ _ = NaN"

fun np_subtract :: "py_float \<Rightarrow> py_float \<Rightarrow> py_float" where
  "np_subtract NaN _ = NaN"
| "np_subtract _ NaN = NaN"
| "np_subtract (Fin a) (Fin b) = Fin (a - b)"
| "np_subtract (Fin a) PosInf = NegInf"
| "np_subtract (Fin a) NegInf = PosInf"
| "np_subtract PosInf PosInf = NaN"
| "np_subtract NegInf NegInf = NaN"
| "np_subtract PosInf _ = PosInf"
| "np_subtract NegInf _ = NegInf"

section \<open>threat-detection.py: ThreatDetectionModel\<close>

subsection \<open>Data\<close>

text \<open>An exception, by what \<^verbatim>\<open>str(e)\<close> needs of it: an ordinary exception carries
  its message, FastAPI's HTTPException its status code and detail. Only exceptions derived
  from \<^verbatim>\<open>Exception\<close> are modelled (no cancellation, no interpreter exit).\<close>

datatype exn = Error string | HTTPException nat string

text \<open>\<^verbatim>\<open>config['weights']\<close>, read from the configuration file.\<close>

record weights =
  weight_text :: real
  weight_anomaly :: real
  weight_rules :: real

text \<open>The feature dictionary built by the extractor, with the entries this class reads.\<close>

record image_analysis =
  is_suspicious :: bool
  has_logo :: bool

record text_features =
  bert_embeddings :: "real list list"
  suspicious_patterns_found :: "string list"

record url_features =
  url_length :: nat
  suspicious_patterns :: "string list"
  contains_ip :: bool
  subdomain_count :: int

record features =
  feat_text :: text_features
  feat_url :: url_features
  feat_images :: "image_analysis list"

text \<open>The dictionary returned by \<^verbatim>\<open>predict_threat\<close>.\<close>

record component_scores =
  text_based :: real
  anomaly :: real
  rule_based :: real

record threat_analysis =
  threat_score :: real
  components :: component_scores
  threat_level :: string
  confidence :: py_float

text \<open>The two trained models are outside the repository: the Keras text model's
  \<^verbatim>\<open>predict\<close> (its first output) and the isolation forest's \<^verbatim>\<open>score_samples\<close>
  (its first output) are parameters; either may raise.\<close>

record detector =
  config_weights :: weights
  text_model_predict :: "real list list \<Rightarrow> exn + real"
  score_samples :: "real list \<Rightarrow> exn + real"

subsection \<open>Operations\<close>

definition get_threat_level :: "real \<Rightarrow> string" where
  "get_threat_level score =
     (if score < 0.2 then ''LOW''
      else if score < 0.5 then ''MEDIUM''
      else if score < 0.8 then ''HIGH''
      else ''CRITICAL'')"

definition calculate_confidence :: "real list \<Rightarrow> py_float" where
  "calculate_confidence scores =
     (let std_dev = np_std scores
      in np_subtract (Fin 1.0) (np_divide std_dev (np_mean scores)))"

definition predict_text_threat :: "detector \<Rightarrow> text_features \<Rightarrow> exn + real" where
  "predict_text_threat d tf = text_model_predict d (bert_embeddings tf)"

text \<open>\<^verbatim>\<open>bert_embeddings[0]\<close> raises IndexError on an empty list.\<close>

definition flatten_features :: "features \<Rightarrow> exn + real list" where
  "flatten_features f =
     (case bert_embeddings (feat_text f) of
        [] \<Rightarrow> Inl (Error ''list index out of range'')
      | e0 # _ \<Rightarrow>
          Inr (e0 @
               [real (url_length (feat_url f)),
                real (length (suspicious_patterns (feat_url f))),
                (if contains_ip (feat_url f) then 1 else 0),
                real_of_int (subdomain_count (feat_url f))] @
               [real (length (feat_images f)),
                real (length (filter is_suspicious (feat_images f))),
                real (length (filter has_logo (feat_images f)))]))"

definition predict_anomaly :: "detector \<Rightarrow> features \<Rightarrow> exn + real" where
  "predict_anomaly d f =
     (case flatten_features f of
        Inl e \<Rightarrow> Inl e
      | Inr feature_vector \<Rightarrow>
          (case score_samples d feature_vector of
             Inl e \<Rightarrow> Inl e
           | Inr score \<Rightarrow> Inr (1 - (score + 1) / 2)))"

text \<open>The loop over the images of \<^verbatim>\<open>apply_rules\<close>.\<close>

fun apply_image_rules :: "image_analysis list \<Rightarrow> real \<Rightarrow> real" where
  "apply_image_rules [] score = score"
| "apply_image_rules (img # imgs) score =
     apply_image_rules imgs
       ((if is_suspicious img then score + 0.1 else score) +
        (if has_logo img then 0.1 else 0))"

text \<open>Lines 127 to 131 of the file repeat the head of the conditional on
  \<^verbatim>\<open>subdomain_count\<close>; they are read as the one conditional they spell.\<close>

definition apply_rules :: "features \<Rightarrow> real" where
  "apply_rules f =
     (let score = 0.0;
          score = (if suspicious_patterns_found (feat_text f) \<noteq> [] then score + 0.3 else score);
          score = (if contains_ip (feat_url f) then score + 0.2 else score);
          score = (if suspicious_patterns (feat_url f) \<noteq> [] then score + 0.2 else score);
          score = (if subdomain_count (feat_url f) > 2 then score + 0.1 else score);
          score = apply_image_rules (feat_images f) score
      in min score 1.0)"

text \<open>Lines 79 to 97 of \<^verbatim>\<open>predict_threat\<close>: the weighted combination of the three
  component scores and the dictionary built from it. This is the fusion of a signal set.\<close>

definition combine_scores :: "weights \<Rightarrow> real \<Rightarrow> real \<Rightarrow> real \<Rightarrow> threat_analysis" where
  "combine_scores w text_score anomaly_score rule_based_score =
     (let final_score =
            weight_text w * text_score +
            weight_anomaly w * anomaly_score +
            weight_rules w * rule_based_score
      in \<lparr>threat_score = final_score,
          components = \<lparr>text_based = text_score, anomaly = anomaly_score,
                        rule_based = rule_based_score\<rparr>,
          threat_level = get_threat_level final_score,
          confidence = calculate_confidence [text_score, anomaly_score, rule_based_score]\<rparr>)"

definition predict_threat :: "detector \<Rightarrow> features \<Rightarrow> exn + threat_analysis" where
  "predict_threat d f =
     (case predict_text_threat d (feat_text f) of
        Inl e \<Rightarrow> Inl e
      | Inr text_score \<Rightarrow>
          (case predict_anomaly d f of
             Inl e \<Rightarrow> Inl e
           | Inr anomaly_score \<Rightarrow>
               Inr (combine_scores (config_weights d) text_score anomaly_score (apply_rules f))))"

section \<open>api-backend.py\<close>

subsection \<open>Data\<close>

text \<open>A naive \<^verbatim>\<open>datetime\<close>, as \<^verbatim>\<open>datetime.utcnow()\<close> returns it.\<close>

record datetime =
  year :: nat
  month :: nat
  day :: nat
  hour :: nat
  minute :: nat
  second :: nat
  microsecond :: nat

text \<open>The pydantic models. A validated \<^verbatim>\<open>HttpUrl\<close> is the string \<^verbatim>\<open>str(url)\<close> gives.\<close>

record UrlRequest =
  req_url :: string
  req_callback_url :: "string option"

record BatchUrlRequest =
  batch_urls :: "string list"
  batch_callback_url :: "string option"

record ThreatAnalysisResponse =
  resp_url :: string
  resp_timestamp :: datetime
  resp_threat_score :: real
  resp_threat_level :: string
  resp_confidence :: py_float
  resp_details :: component_scores

text \<open>An element of the list \<^verbatim>\<open>results\<close> of a batch: the response of a successful
  analysis, or the dictionary \<^verbatim>\<open>{"url": ..., "error": ...}\<close>.\<close>

datatype batch_result = Analysis ThreatAnalysisResponse | ErrorRecord string string

fun result_url :: "batch_result \<Rightarrow> string" where
  "result_url (Analysis r) = resp_url r"
| "result_url (ErrorRecord u e) = u"

text \<open>
  What the module calls and does not define, as parameters acting on an external world
  \<^typ>\<open>'x\<close>: the crawler (creating the spider and \<^verbatim>\<open>crawl_single_url\<close>, giving
  \<^verbatim>\<open>response.text\<close>), the feature extractor, the detector's trained models, the
  Snowflake cursor, \<^verbatim>\<open>json.dumps\<close> on the features and on the analysis, the clock,
  \<^verbatim>\<open>hash\<close> on a datetime (fixed within a process), \<^verbatim>\<open>str\<close> on an HTTPException (it
  depends on the Starlette version), and the three functions
  \<^verbatim>\<open>store_batch_results\<close>, \<^verbatim>\<open>load_batch_results\<close> and \<^verbatim>\<open>send_callback\<close>, which the
  module calls and no file of the repository defines. What \<^verbatim>\<open>load_batch_results\<close>
  returns is \<^verbatim>\<open>None\<close> or a list of results.
\<close>

record 'x collaborators =
  crawl_single_url :: "string \<Rightarrow> 'x \<Rightarrow> (exn + string) \<times> 'x"
  extract_features :: "string \<Rightarrow> string \<Rightarrow> exn + features"
  threat_detector :: detector
  cursor :: "'x \<Rightarrow> (exn + unit) \<times> 'x"
  json_dumps_features :: "features \<Rightarrow> exn + string"
  json_dumps_analysis :: "threat_analysis \<Rightarrow> exn + string"
  cursor_execute :: "string \<Rightarrow> string \<Rightarrow> string \<Rightarrow> datetime \<Rightarrow> 'x \<Rightarrow> (exn + unit) \<times> 'x"
  cursor_close :: "'x \<Rightarrow> (exn + unit) \<times> 'x"
  utcnow :: "'x \<Rightarrow> datetime \<times> 'x"
  hash_datetime :: "datetime \<Rightarrow> int"
  http_exception_str :: "nat \<Rightarrow> string \<Rightarrow> string"
  store_batch_results :: "string \<Rightarrow> batch_result list \<Rightarrow> 'x \<Rightarrow> (exn + unit) \<times> 'x"
  load_batch_results :: "string \<Rightarrow> 'x \<Rightarrow> (exn + batch_result list option) \<times> 'x"
  send_callback :: "string \<Rightarrow> string \<Rightarrow> batch_result list \<Rightarrow> 'x \<Rightarrow> (exn + unit) \<times> 'x"

text \<open>The state of the process: the lines written by \<^verbatim>\<open>logging.error\<close>, and the
  external world the collaborators act on.\<close>

record 'x world =
  error_log :: "string list"
  external :: 'x

subsection \<open>Strings\<close>

text \<open>\<^verbatim>\<open>str\<close> of an integer, and a number zero-padded to a width as \<^verbatim>\<open>strftime\<close>
  prints the fields of a date.\<close>

fun nat_digits :: "nat \<Rightarrow> string" where
  "nat_digits n =
     (if n < 10 then [''0123456789'' ! n]
      else nat_digits (n div 10) @ [''0123456789'' ! (n mod 10)])"

declare nat_digits.simps [simp del]

definition str_int :: "int \<Rightarrow> string" where
  "str_int i = (if i < 0 then ''-'' @ nat_digits (nat (- i)) else nat_digits (nat i))"

definition zero_pad :: "nat \<Rightarrow> nat \<Rightarrow> string" where
  "zero_pad width n = replicate (width - length (nat_digits n)) (CHR ''0'') @ nat_digits n"

text \<open>\<^verbatim>\<open>strftime('%Y%m%d%H%M%S-')\<close>. The C library prints \<^verbatim>\<open>%Y\<close> as the year's
  decimal digits, with no padding for a year below 1000; the other fields are two digits
  wide.\<close>

definition strftime_job :: "datetime \<Rightarrow> string" where
  "strftime_job t =
     nat_digits (year t) @ zero_pad 2 (month t) @ zero_pad 2 (day t) @
     zero_pad 2 (hour t) @ zero_pad 2 (minute t) @ zero_pad 2 (second t) @ ''-''"

definition py_str :: "'x collaborators \<Rightarrow> exn \<Rightarrow> string" where
  "py_str env e =
     (case e of Error msg \<Rightarrow> msg | HTTPException status detail \<Rightarrow> http_exception_str env status detail)"

subsection \<open>Operations\<close>

text \<open>The \<^verbatim>\<open>try\<close> block of \<^verbatim>\<open>store_analysis_results\<close> (lines 152 to 161): the
  arguments of the insert are evaluated from left to right, then the insert runs.\<close>

definition store_analysis_results_try ::
  "'x collaborators \<Rightarrow> string \<Rightarrow> features \<Rightarrow> threat_analysis \<Rightarrow> 'x \<Rightarrow> (exn + unit) \<times> 'x" where
  "store_analysis_results_try env u f analysis x =
     (case json_dumps_features env f of
        Inl e \<Rightarrow> (Inl e, x)
      | Inr features_json \<Rightarrow>
          (case json_dumps_analysis env analysis of
             Inl e \<Rightarrow> (Inl e, x)
           | Inr analysis_json \<Rightarrow>
               (case utcnow env x of
                  (now, x1) \<Rightarrow> cursor_execute env u features_json analysis_json now x1)))"

text \<open>\<^verbatim>\<open>store_analysis_results\<close>: the cursor is opened outside the \<^verbatim>\<open>try\<close>; the
  \<^verbatim>\<open>finally\<close> clause closes it on every path. There is no \<^verbatim>\<open>except\<close> clause: an
  exception of the \<^verbatim>\<open>try\<close> block leaves the function, unless closing raises one of its
  own.\<close>

definition store_analysis_results ::
  "'x collaborators \<Rightarrow> string \<Rightarrow> features \<Rightarrow> threat_analysis \<Rightarrow> 'x \<Rightarrow> (exn + unit) \<times> 'x" where
  "store_analysis_results env u f analysis x =
     (case cursor env x of
        (Inl e, x1) \<Rightarrow> (Inl e, x1)
      | (Inr _, x1) \<Rightarrow>
          (case store_analysis_results_try env u f analysis x1 of
             (executed, x2) \<Rightarrow>
               (case cursor_close env x2 of
                  (Inl e, x3) \<Rightarrow> (Inl e, x3)
                | (Inr _, x3) \<Rightarrow> (executed, x3))))"

text \<open>The \<^verbatim>\<open>try\<close> block of \<^verbatim>\<open>analyze_url\<close> (lines 69 to 96): crawl, extract, detect,
  store, answer. The first exception ends it.\<close>

definition analyze_url_try ::
  "'x collaborators \<Rightarrow> UrlRequest \<Rightarrow> 'x \<Rightarrow> (exn + ThreatAnalysisResponse) \<times> 'x" where
  "analyze_url_try env request x =
     (case crawl_single_url env (req_url request) x of
        (Inl e, x1) \<Rightarrow> (Inl e, x1)
      | (Inr response_text, x1) \<Rightarrow>
          (case extract_features env response_text (req_url request) of
             Inl e \<Rightarrow> (Inl e, x1)
           | Inr f \<Rightarrow>
               (case predict_threat (threat_detector env) f of
                  Inl e \<Rightarrow> (Inl e, x1)
                | Inr analysis \<Rightarrow>
                    (case store_analysis_results env (req_url request) f analysis x1 of
                       (Inl e, x2) \<Rightarrow> (Inl e, x2)
                     | (Inr _, x2) \<Rightarrow>
                         (case utcnow env x2 of
                            (now, x3) \<Rightarrow>
                              (Inr \<lparr>resp_url = req_url request,
                                    resp_timestamp = now,
                                    resp_threat_score = threat_score analysis,
                                    resp_threat_level = threat_level analysis,
                                    resp_confidence = confidence analysis,
                                    resp_details = components analysis\<rparr>, x3))))))"

text \<open>\<^verbatim>\<open>analyze_url\<close>: the \<^verbatim>\<open>except Exception\<close> clause logs the exception and raises
  an HTTPException with status 500 and the exception's text as detail.\<close>

definition analyze_url ::
  "'x collaborators \<Rightarrow> UrlRequest \<Rightarrow> 'x world \<Rightarrow> (exn + ThreatAnalysisResponse) \<times> 'x world" where
  "analyze_url env request w =
     (case analyze_url_try env request (external w) of
        (Inr response, x) \<Rightarrow> (Inr response, w\<lparr>external := x\<rparr>)
      | (Inl e, x) \<Rightarrow>
          (Inl (HTTPException 500 (py_str env e)),
           w\<lparr>external := x,
             error_log := error_log w @
               [''Error analyzing URL '' @ req_url request @ '': '' @ py_str env e]\<rparr>))"

text \<open>\<^verbatim>\<open>generate_job_id\<close> reads the clock twice: the first reading is printed to the
  second, the second reading is hashed.\<close>

definition generate_job_id :: "'x collaborators \<Rightarrow> 'x \<Rightarrow> string \<times> 'x" where
  "generate_job_id env x =
     (case utcnow env x of
        (t1, x1) \<Rightarrow>
          (case utcnow env x1 of
             (t2, x2) \<Rightarrow> (strftime_job t1 @ str_int (hash_datetime env t2), x2)))"

text \<open>A task handed to \<^verbatim>\<open>background_tasks.add_task\<close>: the arguments of
  \<^verbatim>\<open>process_url_batch\<close>.\<close>

record batch_task =
  task_urls :: "string list"
  task_job_id :: string
  task_callback_url :: "string option"

record batch_accepted =
  job_id :: string
  status :: string

definition analyze_urls_batch ::
  "'x collaborators \<Rightarrow> BatchUrlRequest \<Rightarrow> batch_task list \<Rightarrow> 'x world
     \<Rightarrow> batch_accepted \<times> batch_task list \<times> 'x world" where
  "analyze_urls_batch env request background_tasks w =
     (case generate_job_id env (external w) of
        (jid, x) \<Rightarrow>
          (\<lparr>job_id = jid, status = ''processing''\<rparr>,
           background_tasks @
             [\<lparr>task_urls = batch_urls request, task_job_id = jid,
               task_callback_url = batch_callback_url request\<rparr>],
           w\<lparr>external := x\<rparr>))"

text \<open>
  The loop of \<^verbatim>\<open>process_url_batch\<close> (lines 122 to 131), on the list \<^verbatim>\<open>results\<close> built so
  far. Each awaited call of \<^verbatim>\<open>analyze_url\<close> returns or raises before the loop goes on.
  The event list is ghost state, not a variable of the program: it records where each
  awaited call starts and where it has finished.
\<close>

datatype event = Started string | Finished string

fun process_url_batch_loop ::
  "'x collaborators \<Rightarrow> string list \<Rightarrow> batch_result list \<Rightarrow> event list \<Rightarrow> 'x world
     \<Rightarrow> batch_result list \<times> event list \<times> 'x world" where
  "process_url_batch_loop env [] results tr w = (results, tr, w)"
| "process_url_batch_loop env (u # urls) results tr w =
     (case analyze_url env \<lparr>req_url = u, req_callback_url = None\<rparr> w of
        (Inr result, w1) \<Rightarrow>
          process_url_batch_loop env urls (results @ [Analysis result])
            (tr @ [Started u, Finished u]) w1
      | (Inl e, w1) \<Rightarrow>
          process_url_batch_loop env urls (results @ [ErrorRecord u (py_str env e)])
            (tr @ [Started u, Finished u])
            (w1\<lparr>error_log := error_log w1 @
                  [''Error processing '' @ u @ '': '' @ py_str env e]\<rparr>))"

declare process_url_batch_loop.simps [simp del]

text \<open>Lines 133 to 138: the results are stored, then sent to the callback URL when there is
  one. Neither call is guarded.\<close>

definition process_url_batch_finish ::
  "'x collaborators \<Rightarrow> string \<Rightarrow> string option \<Rightarrow> batch_result list \<times> event list \<times> 'x world
     \<Rightarrow> (exn + unit) \<times> event list \<times> 'x world" where
  "process_url_batch_finish env jid callback_url looped =
     (case looped of
        (results, tr, w) \<Rightarrow>
          (case store_batch_results env jid results (external w) of
             (Inl e, x1) \<Rightarrow> (Inl e, tr, w\<lparr>external := x1\<rparr>)
           | (Inr _, x1) \<Rightarrow>
               (case callback_url of
                  None \<Rightarrow> (Inr (), tr, w\<lparr>external := x1\<rparr>)
                | Some cb \<Rightarrow>
                    (case send_callback env cb jid results x1 of
                       (sent, x2) \<Rightarrow> (sent, tr, w\<lparr>external := x2\<rparr>)))))"

definition process_url_batch ::
  "'x collaborators \<Rightarrow> string list \<Rightarrow> string \<Rightarrow> string option \<Rightarrow> 'x world
     \<Rightarrow> (exn + unit) \<times> event list \<times> 'x world" where
  "process_url_batch env urls jid callback_url w =
     process_url_batch_finish env jid callback_url (process_url_batch_loop env urls [] [] w)"

text \<open>\<^verbatim>\<open>get_batch_results\<close>: \<^verbatim>\<open>not results\<close> holds of \<^verbatim>\<open>None\<close> and of the empty list.\<close>

definition get_batch_results ::
  "'x collaborators \<Rightarrow> string \<Rightarrow> 'x \<Rightarrow> (exn + batch_result list) \<times> 'x" where
  "get_batch_results env jid x =
     (case load_batch_results env jid x of
        (Inl e, x1) \<Rightarrow> (Inl e, x1)
      | (Inr None, x1) \<Rightarrow> (Inl (HTTPException 404 ''Job not found''), x1)
      | (Inr (Some results), x1) \<Rightarrow>
          (if results = [] then (Inl (HTTPException 404 ''Job not found''), x1)
           else (Inr results, x1)))"

section \<open>The specification's words\<close>

text \<open>The fused score as the specification writes it: the weighted sum clamped into the
  unit interval.\<close>

definition spec_clamp :: "real \<Rightarrow> real \<Rightarrow> real \<Rightarrow> real" where
  "spec_clamp x lo hi = max lo (min hi x)"

definition spec_fused_score :: "weights \<Rightarrow> real \<Rightarrow> real \<Rightarrow> real \<Rightarrow> real" where
  "spec_fused_score w text_score anomaly_score rule_score =
     spec_clamp (weight_text w * text_score + weight_anomaly w * anomaly_score +
                 weight_rules w * rule_score) 0 1"

text \<open>The number of analyses in flight over a trace: the count goes up where a call starts
  and down where it has finished; \<open>peak_from n\<close> is the highest count reached from \<open>n\<close>.\<close>

fun in_flight_change :: "event \<Rightarrow> int" where
  "in_flight_change (Started u) = 1"
| "in_flight_change (Finished u) = - 1"

fun peak_from :: "int \<Rightarrow> event list \<Rightarrow> int" where
  "peak_from n [] = n"
| "peak_from n (e # es) = max n (peak_from (n + in_flight_change e) es)"

definition peak_in_flight :: "event list \<Rightarrow> int" where
  "peak_in_flight tr = peak_from 0 tr"

text \<open>The bounded worker pool as the specification writes it: never more analyses in flight
  than the limit, and more than one when the limit and the work allow it.\<close>

definition spec_bounded_pool :: "nat \<Rightarrow> string list \<Rightarrow> event list \<Rightarrow> bool" where
  "spec_bounded_pool concurrency_limit urls tr \<longleftrightarrow>
     peak_in_flight tr \<le> int concurrency_limit \<and>
     (1 < concurrency_limit \<and> 1 < length urls \<longrightarrow> 1 < peak_in_flight tr)"

section \<open>A sample deployment\<close>

text \<open>A concrete external world to run the operations on: a clock, the rows inserted into
  the analysis table, the stored batches and the callbacks sent.\<close>

record sample_world =
  clock :: "datetime list"
  table_rows :: "string list"
  stored_jobs :: "(string \<times> batch_result list) list"
  callbacks_sent :: "(string \<times> string) list"

definition sample_time :: datetime where
  "sample_time = \<lparr>year = 2024, month = 1, day = 2, hour = 3, minute = 4, second = 5,
                   microsecond = 6\<rparr>"

text \<open>A clock that gives its readings in turn and keeps giving the last one: a timer
  coarser than the time between two readings.\<close>

definition sample_utcnow :: "sample_world \<Rightarrow> datetime \<times> sample_world" where
  "sample_utcnow x =
     (case clock x of
        [] \<Rightarrow> (sample_time, x)
      | [t] \<Rightarrow> (t, x)
      | t # ts \<Rightarrow> (t, x\<lparr>clock := ts\<rparr>))"

definition sample_features :: features where
  "sample_features =
     \<lparr>feat_text = \<lparr>bert_embeddings = [[0]], suspicious_patterns_found = [''verify your account'']\<rparr>,
      feat_url = \<lparr>url_length = 18, suspicious_patterns = [], contains_ip = True,
                  subdomain_count = 2\<rparr>,
      feat_images = []\<rparr>"

definition sample_detector :: detector where
  "sample_detector =
     \<lparr>config_weights = \<lparr>weight_text = 0.5, weight_anomaly = 0.3, weight_rules = 0.2\<rparr>,
      text_model_predict = (\<lambda>embeddings. Inr 0.5),
      score_samples = (\<lambda>feature_vector. Inr 0)\<rparr>"

text \<open>Modelled from the spec: \<^verbatim>\<open>store_batch_results\<close> and \<^verbatim>\<open>load_batch_results\<close> are
  called by the module and defined by no file of the repository. The specification's
  JobStore is a process-wide map from job id to the job's results: storing binds the id,
  loading looks it up.\<close>

definition sample_store_batch_results ::
  "string \<Rightarrow> batch_result list \<Rightarrow> sample_world \<Rightarrow> (exn + unit) \<times> sample_world" where
  "sample_store_batch_results jid results x =
     (Inr (), x\<lparr>stored_jobs := (jid, results) # stored_jobs x\<rparr>)"

definition sample_load_batch_results ::
  "string \<Rightarrow> sample_world \<Rightarrow> (exn + batch_result list option) \<times> sample_world" where
  "sample_load_batch_results jid x = (Inr (map_of (stored_jobs x) jid), x)"

text \<open>The sample collaborators: the host \<^verbatim>\<open>down.example\<close> cannot be reached, every other
  page is fetched; the database accepts every row.\<close>

definition sample_env :: "sample_world collaborators" where
  "sample_env =
     \<lparr>crawl_single_url =
        (\<lambda>u x. if u = ''http://down.example'' then (Inl (Error ''connection refused''), x)
               else (Inr ''<html></html>'', x)),
      extract_features = (\<lambda>html u. Inr sample_features),
      threat_detector = sample_detector,
      cursor = (\<lambda>x. (Inr (), x)),
      json_dumps_features = (\<lambda>f. Inr ''<the features as JSON>''),
      json_dumps_analysis = (\<lambda>analysis. Inr ''<the analysis as JSON>''),
      cursor_execute =
        (\<lambda>u features_json analysis_json now x.
           (Inr (), x\<lparr>table_rows := table_rows x @ [u]\<rparr>)),
      cursor_close = (\<lambda>x. (Inr (), x)),
      utcnow = sample_utcnow,
      hash_datetime = (\<lambda>t. - int (second t * 1000000 + microsecond t)),
      http_exception_str = (\<lambda>status detail. nat_digits status @ '': '' @ detail),
      store_batch_results = sample_store_batch_results,
      load_batch_results = sample_load_batch_results,
      send_callback =
        (\<lambda>cb jid results x. (Inr (), x\<lparr>callbacks_sent := callbacks_sent x @ [(cb, jid)]\<rparr>))\<rparr>"

text \<open>The same deployment with a database that refuses every insert.\<close>

definition sample_env_db_down :: "sample_world collaborators" where
  "sample_env_db_down =
     sample_env\<lparr>cursor_execute :=
       (\<lambda>u features_json analysis_json now x.
          (Inl (Error ''snowflake: connection lost''), x))\<rparr>"

text \<open>A page on which no rule fires, and models that see nothing in it: the text model
  answers 0 and the isolation forest 1, the score the code's comment gives to a normal
  sample.\<close>

definition quiet_features :: features where
  "quiet_features =
     \<lparr>feat_text = \<lparr>bert_embeddings = [[0]], suspicious_patterns_found = []\<rparr>,
      feat_url = \<lparr>url_length = 18, suspicious_patterns = [], contains_ip = False,
                  subdomain_count = 1\<rparr>,
      feat_images = []\<rparr>"

definition quiet_detector :: detector where
  "quiet_detector =
     \<lparr>config_weights = \<lparr>weight_text = 0.5, weight_anomaly = 0.3, weight_rules = 0.2\<rparr>,
      text_model_predict = (\<lambda>embeddings. Inr 0),
      score_samples = (\<lambda>feature_vector. Inr 1)\<rparr>"

definition sample_start :: "sample_world world" where
  "sample_start =
     \<lparr>error_log = [],
      external = \<lparr>clock = [sample_time], table_rows = [], stored_jobs = [],
                  callbacks_sent = []\<rparr>\<rparr>"

section \<open>Evaluating the sample deployment\<close>

lemmas sample_defs = sample_env_def sample_env_db_down_def sample_start_def sample_utcnow_def
  sample_time_def sample_features_def sample_detector_def sample_store_batch_results_def
  sample_load_batch_results_def

lemmas detection_defs = predict_threat_def predict_text_threat_def predict_anomaly_def
  flatten_features_def apply_rules_def combine_scores_def calculate_confidence_def np_std_def
  np_mean_def get_threat_level_def

lemmas analysis_defs = analyze_url_def analyze_url_try_def store_analysis_results_def
  store_analysis_results_try_def py_str_def

lemmas batch_defs = process_url_batch_def process_url_batch_finish_def
  process_url_batch_loop.simps

lemma nat_digits_500: "nat_digits 500 = ''500''"
  by (simp add: nat_digits.simps)

lemma sample_py_str_500: "py_str sample_env (HTTPException 500 detail) = ''500: '' @ detail"
  by (simp add: py_str_def sample_env_def nat_digits_500)

section \<open>Properties of the detection model\<close>

lemma threat_score_combine_scores:
  "threat_score (combine_scores w t a r) =
     weight_text w * t + weight_anomaly w * a + weight_rules w * r"
  by (simp add: combine_scores_def Let_def)

lemma weighted_sum_in_unit_interval:
  fixes a b c t u v :: real
  assumes "0 \<le> a" "0 \<le> b" "0 \<le> c" "a + b + c \<le> 1"
    and "0 \<le> t" "t \<le> 1" "0 \<le> u" "u \<le> 1" "0 \<le> v" "v \<le> 1"
  shows "0 \<le> a * t + b * u + c * v" and "a * t + b * u + c * v \<le> 1"
proof -
  show "0 \<le> a * t + b * u + c * v"
    using assms by simp
  have "a * t \<le> a" "b * u \<le> b" "c * v \<le> c"
    using assms by (simp_all add: mult_left_le)
  then show "a * t + b * u + c * v \<le> 1"
    using assms by linarith
qed

text \<open>
  C1: when the three component scores are all exactly zero the fusion is claimed to return
  confidence 1.0, by a special case for a zero mean. The code has no such case: the
  standard deviation 0 is divided by the mean 0, which is nan, and the confidence returned
  is nan for every weight configuration.
\<close>

theorem confidence_of_all_zero_scores_is_nan:
  "calculate_confidence [0, 0, 0] = NaN \<and>
   confidence (combine_scores w 0 0 0) = NaN \<and>
   confidence (combine_scores w 0 0 0) \<noteq> Fin 1 \<and>
   predict_threat quiet_detector quiet_features =
     Inr (combine_scores (config_weights quiet_detector) 0 0 0)"
  by (simp add: detection_defs quiet_detector_def quiet_features_def)

text \<open>
  C2, as amended: the fused threat score is the weighted sum of the three component scores,
  with no clamp. For component scores in the unit interval and non-negative weights whose
  sum is at most 1 the sum lies in the unit interval, and so equals the specification's
  clamped score.
\<close>

theorem threat_score_is_weighted_sum:
  "threat_score (combine_scores w t a r) =
     weight_text w * t + weight_anomaly w * a + weight_rules w * r \<and>
   (0 \<le> t \<and> t \<le> 1 \<and> 0 \<le> a \<and> a \<le> 1 \<and> 0 \<le> r \<and> r \<le> 1 \<and>
    0 \<le> weight_text w \<and> 0 \<le> weight_anomaly w \<and> 0 \<le> weight_rules w \<and>
    weight_text w + weight_anomaly w + weight_rules w \<le> 1 \<longrightarrow>
      threat_score (combine_scores w t a r) = spec_fused_score w t a r \<and>
      0 \<le> threat_score (combine_scores w t a r) \<and>
      threat_score (combine_scores w t a r) \<le> 1)"
proof (intro conjI impI)
  show "threat_score (combine_scores w t a r) =
      weight_text w * t + weight_anomaly w * a + weight_rules w * r"
    by (rule threat_score_combine_scores)
next
  assume h: "0 \<le> t \<and> t \<le> 1 \<and> 0 \<le> a \<and> a \<le> 1 \<and> 0 \<le> r \<and> r \<le> 1 \<and>
    0 \<le> weight_text w \<and> 0 \<le> weight_anomaly w \<and> 0 \<le> weight_rules w \<and>
    weight_text w + weight_anomaly w + weight_rules w \<le> 1"
  then have lo: "0 \<le> weight_text w * t + weight_anomaly w * a + weight_rules w * r"
    and hi: "weight_text w * t + weight_anomaly w * a + weight_rules w * r \<le> 1"
    using weighted_sum_in_unit_interval [of "weight_text w" "weight_anomaly w" "weight_rules w" t a r]
    by simp_all
  from lo hi show "threat_score (combine_scores w t a r) = spec_fused_score w t a r"
    by (simp add: threat_score_combine_scores spec_fused_score_def spec_clamp_def)
  from lo show "0 \<le> threat_score (combine_scores w t a r)"
    by (simp add: threat_score_combine_scores)
  from hi show "threat_score (combine_scores w t a r) \<le> 1"
    by (simp add: threat_score_combine_scores)
qed

text \<open>Weights 0.5, 0.3, 0.2 on the scores 0.8, 0.4, 0.1 give 0.4 + 0.12 + 0.02 = 0.54.\<close>

theorem threat_score_is_weighted_sum_witness:
  "threat_score (combine_scores \<lparr>weight_text = 0.5, weight_anomaly = 0.3, weight_rules = 0.2\<rparr>
     0.8 0.4 0.1) = 0.54 \<and>
   spec_fused_score \<lparr>weight_text = 0.5, weight_anomaly = 0.3, weight_rules = 0.2\<rparr>
     0.8 0.4 0.1 = 0.54"
  using threat_score_is_weighted_sum
    [of "\<lparr>weight_text = 0.5, weight_anomaly = 0.3, weight_rules = 0.2\<rparr>" "0.8" "0.4" "0.1"]
  by simp

text \<open>C2 as stated fails: with each weight 1 and each component score 1 the code returns
  3, and the clamped score is 1.\<close>

theorem threat_score_not_clamped_counterexample:
  "threat_score (combine_scores \<lparr>weight_text = 1, weight_anomaly = 1, weight_rules = 1\<rparr> 1 1 1) = 3 \<and>
   spec_fused_score \<lparr>weight_text = 1, weight_anomaly = 1, weight_rules = 1\<rparr> 1 1 1 = 1 \<and>
   \<not> threat_score (combine_scores \<lparr>weight_text = 1, weight_anomaly = 1, weight_rules = 1\<rparr> 1 1 1) \<le> 1"
  by (simp add: threat_score_combine_scores spec_fused_score_def spec_clamp_def)

text \<open>
  C6: the threat level is LOW below 0.2, MEDIUM from 0.2 up to but excluding 0.5, HIGH from
  0.5 up to but excluding 0.8 and CRITICAL from 0.8 on; the boundary 0.2 is MEDIUM and the
  boundary 0.8 is CRITICAL.
\<close>

theorem get_threat_level_bands:
  "(s < 0.2 \<longrightarrow> get_threat_level s = ''LOW'') \<and>
   (0.2 \<le> s \<and> s < 0.5 \<longrightarrow> get_threat_level s = ''MEDIUM'') \<and>
   (0.5 \<le> s \<and> s < 0.8 \<longrightarrow> get_threat_level s = ''HIGH'') \<and>
   (0.8 \<le> s \<longrightarrow> get_threat_level s = ''CRITICAL'') \<and>
   get_threat_level 0.2 = ''MEDIUM'' \<and> get_threat_level 0.8 = ''CRITICAL''"
  by (simp add: get_threat_level_def)

theorem get_threat_level_bands_witness:
  "get_threat_level 0.1 = ''LOW'' \<and> get_threat_level 0.42 = ''MEDIUM'' \<and>
   get_threat_level 0.5 = ''HIGH'' \<and> get_threat_level 0.93 = ''CRITICAL''"
  using get_threat_level_bands [of "0.1"] get_threat_level_bands [of "0.42"]
    get_threat_level_bands [of "0.5"] get_threat_level_bands [of "0.93"]
  by simp

text \<open>
  C7: when the three component scores all equal a value v of the unit interval and the
  weights are non-negative and sum to 1, the fused score is v, however the weight is
  distributed. Over the reals the equality is exact.
\<close>

theorem equal_scores_fuse_to_that_score:
  assumes "0 \<le> v" and "v \<le> 1"
    and "0 \<le> weight_text w" and "0 \<le> weight_anomaly w" and "0 \<le> weight_rules w"
    and "weight_text w + weight_anomaly w + weight_rules w = 1"
  shows "threat_score (combine_scores w v v v) = v"
proof -
  have "weight_text w * v + weight_anomaly w * v + weight_rules w * v =
      (weight_text w + weight_anomaly w + weight_rules w) * v"
    by (simp add: algebra_simps)
  with assms(6) show ?thesis
    by (simp add: threat_score_combine_scores)
qed

theorem equal_scores_fuse_to_that_score_witness:
  "threat_score (combine_scores \<lparr>weight_text = 0.7, weight_anomaly = 0.1, weight_rules = 0.2\<rparr>
     0.35 0.35 0.35) = 0.35"
proof -
  let ?w = "\<lparr>weight_text = 0.7, weight_anomaly = 0.1, weight_rules = 0.2\<rparr> :: weights"
  have "weight_text ?w + weight_anomaly ?w + weight_rules ?w = 1"
    by simp
  then show ?thesis
    using equal_scores_fuse_to_that_score [of "0.35" ?w] by simp
qed

section \<open>The batch loop\<close>

lemma analyze_url_try_url:
  "analyze_url_try env request x = (Inr r, x') \<Longrightarrow> resp_url r = req_url request"
  by (auto simp: analyze_url_try_def split: prod.splits sum.splits)

lemma analyze_url_resp_url:
  "analyze_url env request w = (Inr r, w') \<Longrightarrow> resp_url r = req_url request"
  by (auto simp: analyze_url_def split: prod.splits sum.splits dest: analyze_url_try_url)

lemma loop_append:
  "process_url_batch_loop env (us @ vs) results tr w =
     (case process_url_batch_loop env us results tr w of
        (results1, tr1, w1) \<Rightarrow> process_url_batch_loop env vs results1 tr1 w1)"
  by (induction us arbitrary: results tr w)
    (auto simp: process_url_batch_loop.simps split: prod.splits sum.splits)

lemma loop_accumulates:
  "\<exists>new. fst (process_url_batch_loop env urls results tr w) = results @ new \<and>
         map result_url new = urls"
proof (induction urls arbitrary: results tr w)
  case Nil
  then show ?case by (simp add: process_url_batch_loop.simps)
next
  case (Cons u urls)
  obtain outcome w1 where a: "analyze_url env \<lparr>req_url = u, req_callback_url = None\<rparr> w = (outcome, w1)"
    by (cases "analyze_url env \<lparr>req_url = u, req_callback_url = None\<rparr> w")
  show ?case
  proof (cases outcome)
    case (Inl e)
    let ?w2 = "w1\<lparr>error_log := error_log w1 @ [''Error processing '' @ u @ '': '' @ py_str env e]\<rparr>"
    from Cons.IH [of "results @ [ErrorRecord u (py_str env e)]" "tr @ [Started u, Finished u]" ?w2]
    obtain new where "fst (process_url_batch_loop env urls (results @ [ErrorRecord u (py_str env e)])
        (tr @ [Started u, Finished u]) ?w2) = (results @ [ErrorRecord u (py_str env e)]) @ new"
      and "map result_url new = urls" by blast
    with a Inl show ?thesis
      by (intro exI [of _ "ErrorRecord u (py_str env e) # new"])
        (simp add: process_url_batch_loop.simps)
  next
    case (Inr r)
    from a Inr have u: "resp_url r = u" by (auto dest: analyze_url_resp_url)
    from Cons.IH [of "results @ [Analysis r]" "tr @ [Started u, Finished u]" w1]
    obtain new where "fst (process_url_batch_loop env urls (results @ [Analysis r])
        (tr @ [Started u, Finished u]) w1) = (results @ [Analysis r]) @ new"
      and "map result_url new = urls" by blast
    with a Inr u show ?thesis
      by (intro exI [of _ "Analysis r # new"]) (simp add: process_url_batch_loop.simps)
  qed
qed

lemma loop_results_urls:
  "map result_url (fst (process_url_batch_loop env urls [] tr w)) = urls"
  using loop_accumulates [of env urls "[]" tr w] by auto

lemma loop_results_length:
  "length (fst (process_url_batch_loop env urls [] tr w)) = length urls"
  using loop_results_urls [of env urls tr w] by (metis length_map)

lemma loop_trace:
  "fst (snd (process_url_batch_loop env urls results tr w)) =
     tr @ concat (map (\<lambda>u. [Started u, Finished u]) urls)"
  by (induction urls arbitrary: results tr w)
    (auto simp: process_url_batch_loop.simps split: prod.splits sum.splits)

lemma peak_from_pairs:
  "peak_from n (concat (map (\<lambda>u. [Started u, Finished u]) urls)) = (if urls = [] then n else n + 1)"
  by (induction urls) auto

text \<open>The sample deployment on the unreachable host.\<close>

lemma sample_analyze_down:
  "analyze_url sample_env \<lparr>req_url = ''http://down.example'', req_callback_url = None\<rparr> w =
     (Inl (HTTPException 500 ''connection refused''),
      w\<lparr>error_log := error_log w @
          [''Error analyzing URL http://down.example: connection refused'']\<rparr>)"
  by (simp add: analysis_defs sample_env_def)

lemma sample_loop_down:
  "process_url_batch_loop sample_env [''http://down.example''] [] [] w =
     ([ErrorRecord ''http://down.example'' ''500: connection refused''],
      [Started ''http://down.example'', Finished ''http://down.example''],
      w\<lparr>error_log := error_log w @
          [''Error analyzing URL http://down.example: connection refused'',
           ''Error processing http://down.example: 500: connection refused'']\<rparr>)"
  by (simp add: process_url_batch_loop.simps sample_analyze_down sample_py_str_500)

lemmas all_defs = batch_defs analysis_defs detection_defs sample_defs Let_def

section \<open>Properties of the analysis service\<close>

text \<open>
  C3, as amended: when the page of a URL is fetched, its features are extracted and the
  detector answers, a failure of \<^verbatim>\<open>store_analysis_results\<close> makes the single-URL
  analysis fail. The error is logged and then raised to the caller as an HTTPException
  with status 500 whose detail is the text of the persistence error; no verdict is returned.
\<close>

theorem analyze_url_store_failure_is_http_500:
  assumes "crawl_single_url env (req_url request) (external w) = (Inr html, x1)"
    and "extract_features env html (req_url request) = Inr f"
    and "predict_threat (threat_detector env) f = Inr analysis"
    and "store_analysis_results env (req_url request) f analysis x1 = (Inl e, x2)"
  shows "analyze_url env request w =
           (Inl (HTTPException 500 (py_str env e)),
            w\<lparr>external := x2,
              error_log := error_log w @
                [''Error analyzing URL '' @ req_url request @ '': '' @ py_str env e]\<rparr>)"
  using assms by (simp add: analyze_url_def analyze_url_try_def)

text \<open>The sample deployment with the database down, on a page that can be fetched.\<close>

theorem analyze_url_store_failure_is_http_500_witness:
  "analyze_url sample_env_db_down \<lparr>req_url = ''http://a.example'', req_callback_url = None\<rparr>
     sample_start =
   (Inl (HTTPException 500 ''snowflake: connection lost''),
    sample_start\<lparr>error_log :=
      [''Error analyzing URL http://a.example: snowflake: connection lost'']\<rparr>)"
proof -
  let ?rq = "\<lparr>req_url = ''http://a.example'', req_callback_url = None\<rparr>"
  let ?a = "combine_scores (config_weights sample_detector) 0.5 0.5 0.5"
  have h1: "crawl_single_url sample_env_db_down (req_url ?rq) (external sample_start) =
      (Inr ''<html></html>'', external sample_start)"
    by (simp add: sample_defs)
  have h2: "extract_features sample_env_db_down ''<html></html>'' (req_url ?rq) = Inr sample_features"
    by (simp add: sample_defs)
  have h3: "predict_threat (threat_detector sample_env_db_down) sample_features = Inr ?a"
    by (simp add: sample_defs detection_defs Let_def)
  have h4: "store_analysis_results sample_env_db_down (req_url ?rq) sample_features ?a
      (external sample_start) = (Inl (Error ''snowflake: connection lost''), external sample_start)"
    by (simp add: sample_defs store_analysis_results_def store_analysis_results_try_def)
  have "error_log sample_start = []"
    by (simp add: sample_start_def)
  then show ?thesis
    using analyze_url_store_failure_is_http_500 [OF h1 h2 h3 h4]
    by (simp add: py_str_def)
qed

text \<open>C3 as stated fails: the fetch, the extraction and the detection succeed, the insert
  fails, and the analysis returns no verdict but the error.\<close>

theorem analyze_url_store_failure_counterexample:
  "crawl_single_url sample_env_db_down ''http://a.example'' (external sample_start) =
     (Inr ''<html></html>'', external sample_start) \<and>
   extract_features sample_env_db_down ''<html></html>'' ''http://a.example'' = Inr sample_features \<and>
   predict_threat (threat_detector sample_env_db_down) sample_features =
     Inr (combine_scores (config_weights sample_detector) 0.5 0.5 0.5) \<and>
   fst (store_analysis_results sample_env_db_down ''http://a.example'' sample_features
          (combine_scores (config_weights sample_detector) 0.5 0.5 0.5) (external sample_start)) =
     Inl (Error ''snowflake: connection lost'') \<and>
   fst (analyze_url sample_env_db_down \<lparr>req_url = ''http://a.example'', req_callback_url = None\<rparr>
          sample_start) =
     Inl (HTTPException 500 ''snowflake: connection lost'')"
  by (simp add: sample_defs analysis_defs detection_defs Let_def)

text \<open>
  C4: a failure while one URL of a batch is analysed does not abort the batch. Whatever
  precedes the failing URL and whatever follows it, the loop appends the error record of
  the URL and its error text, goes on with the remaining URLs from there and ends with one
  result per URL, the error record at the position of the failing URL: the loop has no
  exit by exception. The job then completes: when \<^verbatim>\<open>store_batch_results\<close> accepts the
  results, the batch ends normally in the world in which exactly these results are stored
  under the job id (with a callback URL, in what \<^verbatim>\<open>send_callback\<close> makes of that world
  and of these results). The code has no failed state for a job.
\<close>

theorem process_url_batch_failure_does_not_abort:
  assumes "process_url_batch_loop env us [] [] w = (results1, tr1, w1)"
    and "analyze_url env \<lparr>req_url = u, req_callback_url = None\<rparr> w1 = (Inl e, w2)"
  shows "process_url_batch_loop env (us @ u # vs) [] [] w =
           process_url_batch_loop env vs (results1 @ [ErrorRecord u (py_str env e)])
             (tr1 @ [Started u, Finished u])
             (w2\<lparr>error_log := error_log w2 @
                   [''Error processing '' @ u @ '': '' @ py_str env e]\<rparr>) \<and>
         length (fst (process_url_batch_loop env (us @ u # vs) [] [] w)) =
           length us + 1 + length vs \<and>
         fst (process_url_batch_loop env (us @ u # vs) [] [] w) ! length us =
           ErrorRecord u (py_str env e) \<and>
         process_url_batch env (us @ u # vs) jid callback_url w =
           process_url_batch_finish env jid callback_url
             (process_url_batch_loop env (us @ u # vs) [] [] w) \<and>
         (\<forall>results tr w3 x1.
            process_url_batch_loop env (us @ u # vs) [] [] w = (results, tr, w3) \<and>
            store_batch_results env jid results (external w3) = (Inr (), x1) \<longrightarrow>
              length results = length us + 1 + length vs \<and>
              process_url_batch env (us @ u # vs) jid None w =
                (Inr (), tr, w3\<lparr>external := x1\<rparr>) \<and>
              (\<forall>cb. process_url_batch env (us @ u # vs) jid (Some cb) w =
                 (case send_callback env cb jid results x1 of
                    (sent, x2) \<Rightarrow> (sent, tr, w3\<lparr>external := x2\<rparr>))))"
proof -
  let ?w3 = "w2\<lparr>error_log := error_log w2 @ [''Error processing '' @ u @ '': '' @ py_str env e]\<rparr>"
  let ?rest = "process_url_batch_loop env vs (results1 @ [ErrorRecord u (py_str env e)])
                 (tr1 @ [Started u, Finished u]) ?w3"
  have step: "process_url_batch_loop env (us @ u # vs) [] [] w = ?rest"
    using assms by (simp add: loop_append process_url_batch_loop.simps)
  have len1: "length results1 = length us"
    using loop_results_length [of env us "[]" w] assms(1) by simp
  obtain new where new: "fst ?rest = (results1 @ [ErrorRecord u (py_str env e)]) @ new"
    using loop_accumulates [of env vs "results1 @ [ErrorRecord u (py_str env e)]"
        "tr1 @ [Started u, Finished u]" ?w3] by blast
  have len: "length (fst (process_url_batch_loop env (us @ u # vs) [] [] w)) =
      length us + 1 + length vs"
    using loop_results_length [of env "us @ u # vs" "[]" w] by simp
  have err: "fst (process_url_batch_loop env (us @ u # vs) [] [] w) ! length us =
      ErrorRecord u (py_str env e)"
    using step new len1 by (simp add: nth_append)
  have fin: "process_url_batch env (us @ u # vs) jid callback_url w =
      process_url_batch_finish env jid callback_url
        (process_url_batch_loop env (us @ u # vs) [] [] w)"
    by (simp add: process_url_batch_def)
  have completes: "length results = length us + 1 + length vs \<and>
      process_url_batch env (us @ u # vs) jid None w = (Inr (), tr, w3\<lparr>external := x1\<rparr>) \<and>
      (\<forall>cb. process_url_batch env (us @ u # vs) jid (Some cb) w =
         (case send_callback env cb jid results x1 of
            (sent, x2) \<Rightarrow> (sent, tr, w3\<lparr>external := x2\<rparr>)))"
    if looped: "process_url_batch_loop env (us @ u # vs) [] [] w = (results, tr, w3)"
      and stored: "store_batch_results env jid results (external w3) = (Inr (), x1)"
    for results tr w3 x1
  proof -
    have "length results = length us + 1 + length vs"
      using len looped by simp
    moreover have "process_url_batch env (us @ u # vs) jid None w =
        (Inr (), tr, w3\<lparr>external := x1\<rparr>)"
      using looped stored by (simp add: process_url_batch_def process_url_batch_finish_def)
    moreover have "process_url_batch env (us @ u # vs) jid (Some cb) w =
        (case send_callback env cb jid results x1 of
           (sent, x2) \<Rightarrow> (sent, tr, w3\<lparr>external := x2\<rparr>))" for cb
      using looped stored by (simp add: process_url_batch_def process_url_batch_finish_def)
    ultimately show ?thesis by blast
  qed
  from step len err fin completes show ?thesis
    by blast
qed

text \<open>Three URLs, the second on the unreachable host: three results, the error record
  second, and the job stored with these results.\<close>

theorem process_url_batch_failure_does_not_abort_witness:
  "length (fst (process_url_batch_loop sample_env
      [''http://a.example'', ''http://down.example'', ''http://b.example''] [] [] sample_start)) = 3 \<and>
   fst (process_url_batch_loop sample_env
      [''http://a.example'', ''http://down.example'', ''http://b.example''] [] [] sample_start) ! 1 =
     ErrorRecord ''http://down.example'' ''500: connection refused'' \<and>
   result_url (fst (process_url_batch_loop sample_env
      [''http://a.example'', ''http://down.example'', ''http://b.example''] [] [] sample_start) ! 2) =
     ''http://b.example'' \<and>
   fst (process_url_batch sample_env
      [''http://a.example'', ''http://down.example'', ''http://b.example''] ''job1'' None sample_start) =
     Inr () \<and>
   map_of (stored_jobs (external (snd (snd (process_url_batch sample_env
      [''http://a.example'', ''http://down.example'', ''http://b.example''] ''job1'' None
      sample_start))))) ''job1'' =
     Some (fst (process_url_batch_loop sample_env
      [''http://a.example'', ''http://down.example'', ''http://b.example''] [] [] sample_start))"
proof -
  let ?urls = "[''http://a.example''] @ ''http://down.example'' # [''http://b.example'']"
  let ?looped = "process_url_batch_loop sample_env [''http://a.example''] [] [] sample_start"
  let ?w1 = "snd (snd ?looped)"
  let ?final = "process_url_batch_loop sample_env ?urls [] [] sample_start"
  let ?x1 = "(external (snd (snd ?final)))\<lparr>stored_jobs :=
      (''job1'', fst ?final) # stored_jobs (external (snd (snd ?final)))\<rparr>"
  have h1: "?looped = (fst ?looped, fst (snd ?looped), ?w1)"
    by simp
  have h2: "analyze_url sample_env \<lparr>req_url = ''http://down.example'', req_callback_url = None\<rparr> ?w1 =
      (Inl (HTTPException 500 ''connection refused''),
       ?w1\<lparr>error_log := error_log ?w1 @
          [''Error analyzing URL http://down.example: connection refused'']\<rparr>)"
    by (rule sample_analyze_down)
  note run = process_url_batch_failure_does_not_abort
    [OF h1 h2, of "[''http://b.example'']" "''job1''" None]
  from run have len: "length (fst ?final) =
      length [''http://a.example''] + 1 + length [''http://b.example'']"
    by blast
  from run have err: "fst ?final ! length [''http://a.example''] =
      ErrorRecord ''http://down.example'' (py_str sample_env (HTTPException 500 ''connection refused''))"
    by blast
  have looped: "?final = (fst ?final, fst (snd ?final), snd (snd ?final))"
    by simp
  have stored: "store_batch_results sample_env ''job1'' (fst ?final) (external (snd (snd ?final))) =
      (Inr (), ?x1)"
    by (simp add: sample_env_def sample_store_batch_results_def)
  from run looped stored have completed: "process_url_batch sample_env ?urls ''job1'' None sample_start =
      (Inr (), fst (snd ?final), (snd (snd ?final))\<lparr>external := ?x1\<rparr>)"
    by blast
  have r2: "result_url (fst (process_url_batch_loop sample_env
      [''http://a.example'', ''http://down.example'', ''http://b.example''] [] [] sample_start) ! 2) =
     ''http://b.example''"
    by (simp add: all_defs)
  from len err r2 completed show ?thesis
    by (simp add: sample_py_str_500)
qed

text \<open>
  C5: when the loop of a batch over N URLs ends, the results hold exactly one entry per
  submitted URL, in the order of submission, and these are the results that are stored and
  sent to the callback. Results only accumulate: the results after any initial part of the
  batch are an initial part of the final results.
\<close>

theorem process_url_batch_one_result_per_url:
  assumes "process_url_batch_loop env urls [] [] w = (results, tr, w')"
  shows "length results = length urls \<and>
         map result_url results = urls \<and>
         process_url_batch env urls jid callback_url w =
           process_url_batch_finish env jid callback_url (results, tr, w') \<and>
         (\<forall>us vs. urls = us @ vs \<longrightarrow>
            prefix (fst (process_url_batch_loop env us [] [] w)) results)"
proof -
  have "length results = length urls"
    using loop_results_length [of env urls "[]" w] assms by simp
  moreover have "map result_url results = urls"
    using loop_results_urls [of env urls "[]" w] assms by simp
  moreover have "process_url_batch env urls jid callback_url w =
      process_url_batch_finish env jid callback_url (results, tr, w')"
    using assms by (simp add: process_url_batch_def)
  moreover have "prefix (fst (process_url_batch_loop env us [] [] w)) results" if "urls = us @ vs" for us vs
  proof -
    obtain r1 t1 w1 where one: "process_url_batch_loop env us [] [] w = (r1, t1, w1)"
      by (cases "process_url_batch_loop env us [] [] w") auto
    have "process_url_batch_loop env vs r1 t1 w1 = (results, tr, w')"
      using assms that one by (simp add: loop_append)
    then obtain new where "results = r1 @ new"
      using loop_accumulates [of env vs r1 t1 w1] by auto
    with one show ?thesis by simp
  qed
  ultimately show ?thesis by blast
qed

text \<open>Three URLs, one of them submitted twice.\<close>

theorem process_url_batch_one_result_per_url_witness:
  "length (fst (process_url_batch_loop sample_env
      [''http://a.example'', ''http://down.example'', ''http://a.example''] [] [] sample_start)) = 3 \<and>
   map result_url (fst (process_url_batch_loop sample_env
      [''http://a.example'', ''http://down.example'', ''http://a.example''] [] [] sample_start)) =
     [''http://a.example'', ''http://down.example'', ''http://a.example''] \<and>
   prefix (fst (process_url_batch_loop sample_env [''http://a.example''] [] [] sample_start))
     (fst (process_url_batch_loop sample_env
        [''http://a.example'', ''http://down.example'', ''http://a.example''] [] [] sample_start))"
proof -
  let ?urls = "[''http://a.example'', ''http://down.example'', ''http://a.example'']"
  let ?looped = "process_url_batch_loop sample_env ?urls [] [] sample_start"
  have h: "?looped = (fst ?looped, fst (snd ?looped), snd (snd ?looped))"
    by simp
  note run = process_url_batch_one_result_per_url [OF h, of "''job1''" None]
  from run have len: "length (fst ?looped) = length ?urls"
    by blast
  from run have urls: "map result_url (fst ?looped) = ?urls"
    by blast
  from run have "\<forall>us vs. ?urls = us @ vs \<longrightarrow>
      prefix (fst (process_url_batch_loop sample_env us [] [] sample_start)) (fst ?looped)"
    by blast
  then have "?urls = [''http://a.example''] @ [''http://down.example'', ''http://a.example''] \<longrightarrow>
      prefix (fst (process_url_batch_loop sample_env [''http://a.example''] [] [] sample_start))
        (fst ?looped)"
    by blast
  then have pre: "prefix (fst (process_url_batch_loop sample_env [''http://a.example''] [] []
      sample_start)) (fst ?looped)"
    by simp
  from len urls pre show ?thesis
    by simp
qed

text \<open>
  C9, as amended: a batch job analyses its URLs strictly one at a time, in the order of
  submission. Each awaited analysis has finished before the next one starts, so at most
  one analysis of the job is in flight at any moment (exactly one at the peak of a batch
  that is not empty). The code has no concurrency limit and no worker pool.
\<close>

theorem process_url_batch_one_at_a_time:
  assumes "process_url_batch env urls jid callback_url w = (outcome, tr, w')"
  shows "tr = concat (map (\<lambda>u. [Started u, Finished u]) urls) \<and>
         peak_in_flight tr = (if urls = [] then 0 else 1)"
proof -
  have "fst (snd (process_url_batch env urls jid callback_url w)) =
      fst (snd (process_url_batch_loop env urls [] [] w))"
    by (simp add: process_url_batch_def process_url_batch_finish_def
        split: prod.splits sum.splits option.splits)
  then have "tr = concat (map (\<lambda>u. [Started u, Finished u]) urls)"
    using assms by (simp add: loop_trace)
  then show ?thesis
    by (simp add: peak_in_flight_def peak_from_pairs)
qed

text \<open>A batch of two URLs.\<close>

theorem process_url_batch_one_at_a_time_witness:
  "fst (snd (process_url_batch sample_env [''http://a.example'', ''http://b.example''] ''job1''
               None sample_start)) =
     [Started ''http://a.example'', Finished ''http://a.example'',
      Started ''http://b.example'', Finished ''http://b.example''] \<and>
   peak_in_flight (fst (snd (process_url_batch sample_env
      [''http://a.example'', ''http://b.example''] ''job1'' None sample_start))) = 1"
proof -
  let ?run = "process_url_batch sample_env [''http://a.example'', ''http://b.example''] ''job1''
                None sample_start"
  have h: "?run = (fst ?run, fst (snd ?run), snd (snd ?run))"
    by simp
  from process_url_batch_one_at_a_time [OF h] show ?thesis
    by (simp add: peak_in_flight_def)
qed

text \<open>C9 as stated fails: with a limit of two and two URLs to analyse, a bounded pool would
  have two analyses in flight; the run of the code never has more than one.\<close>

theorem bounded_pool_counterexample:
  "\<not> spec_bounded_pool 2 [''http://a.example'', ''http://b.example'']
       (fst (snd (process_url_batch sample_env [''http://a.example'', ''http://b.example'']
                    ''job1'' None sample_start)))"
  by (simp add: spec_bounded_pool_def peak_in_flight_def all_defs)

text \<open>
  C10: the lookup of a job's results answers 404, Job not found, exactly when what
  \<^verbatim>\<open>load_batch_results\<close> returns is \<^verbatim>\<open>None\<close> or empty, and returns the results
  whenever there is at least one. A batch of no URLs stores the empty list of results, so
  a job that was created with no URLs is reported as not found.
\<close>

theorem get_batch_results_not_found:
  assumes "load_batch_results env jid x = (Inr loaded, x1)"
  shows "(fst (get_batch_results env jid x) = Inl (HTTPException 404 ''Job not found'') \<longleftrightarrow>
            loaded = None \<or> loaded = Some []) \<and>
         (\<forall>results. loaded = Some results \<and> results \<noteq> [] \<longrightarrow>
            fst (get_batch_results env jid x) = Inr results) \<and>
         process_url_batch env [] jid callback_url w =
           process_url_batch_finish env jid callback_url ([], [], w)"
  using assms
  by (auto simp: get_batch_results_def process_url_batch_def process_url_batch_loop.simps
      split: option.splits)

text \<open>On the sample deployment: a processed batch of no URLs, a job id never submitted, and
  a processed batch of one URL.\<close>

theorem get_batch_results_not_found_witness:
  "fst (get_batch_results sample_env ''job0''
          (external (snd (snd (process_url_batch sample_env [] ''job0'' None sample_start))))) =
     Inl (HTTPException 404 ''Job not found'') \<and>
   fst (get_batch_results sample_env ''job7'' (external sample_start)) =
     Inl (HTTPException 404 ''Job not found'') \<and>
   fst (get_batch_results sample_env ''job1''
          (external (snd (snd (process_url_batch sample_env [''http://down.example''] ''job1'' None
             sample_start))))) =
     Inr [ErrorRecord ''http://down.example'' ''500: connection refused'']"
proof -
  let ?x0 = "external (snd (snd (process_url_batch sample_env [] ''job0'' None sample_start)))"
  let ?x1 = "external (snd (snd (process_url_batch sample_env [''http://down.example''] ''job1'' None
             sample_start)))"
  have h0: "load_batch_results sample_env ''job0'' ?x0 = (Inr (Some []), ?x0)"
    by (simp add: batch_defs sample_defs)
  have h7: "load_batch_results sample_env ''job7'' (external sample_start) =
      (Inr None, external sample_start)"
    by (simp add: sample_defs)
  have h1: "load_batch_results sample_env ''job1'' ?x1 =
      (Inr (Some [ErrorRecord ''http://down.example'' ''500: connection refused'']), ?x1)"
    by (simp add: process_url_batch_def process_url_batch_finish_def sample_loop_down)
      (simp add: sample_defs)
  from get_batch_results_not_found [OF h0] have a: "fst (get_batch_results sample_env ''job0'' ?x0) =
      Inl (HTTPException 404 ''Job not found'')"
    by blast
  from get_batch_results_not_found [OF h7] have b:
    "fst (get_batch_results sample_env ''job7'' (external sample_start)) =
      Inl (HTTPException 404 ''Job not found'')"
    by blast
  from get_batch_results_not_found [OF h1] have c: "fst (get_batch_results sample_env ''job1'' ?x1) =
      Inr [ErrorRecord ''http://down.example'' ''500: connection refused'']"
    by blast
  from a b c show ?thesis
    by blast
qed

text \<open>
  C8: two distinct batch submissions are claimed to get distinct job ids. The id is a
  function of two clock readings and nothing else; on a clock that returns the same
  reading to both submissions (a timer coarser than the time between them), the two
  submissions get the same id.
\<close>

theorem generate_job_id_repeats_on_a_coarse_clock:
  "(case analyze_urls_batch sample_env
           \<lparr>batch_urls = [''http://a.example''], batch_callback_url = None\<rparr> [] sample_start of
      (accepted1, tasks1, w1) \<Rightarrow>
        (case analyze_urls_batch sample_env
                \<lparr>batch_urls = [''http://b.example''], batch_callback_url = None\<rparr> tasks1 w1 of
           (accepted2, tasks2, w2) \<Rightarrow>
             job_id accepted1 = ''20240102030405--5000006'' \<and>
             job_id accepted2 = ''20240102030405--5000006'' \<and>
             map task_urls tasks2 = [[''http://a.example''], [''http://b.example'']]))"
  by (simp add: analyze_urls_batch_def generate_job_id_def strftime_job_def zero_pad_def
      str_int_def nat_digits.simps sample_defs)

end
